theory Spec2Isabelle
  imports Complex_Main
begin

section \<open>Python values, exceptions and outcomes\<close>

text \<open>
  The server is a single Python module, \<open>server.py\<close>. Its functions are annotated with
  \<open>int\<close>, but Python does not enforce annotations, so an operand is a Python object.
  Two classes of objects are modelled: integers (unbounded, hence \<open>int\<close>) and strings.
\<close>

datatype py_value = PyInt int | PyStr string

text \<open>
  The exceptions that occur: \<open>ValueError\<close> is raised by the module itself with a literal
  message; \<open>ZeroDivisionError\<close>, \<open>OverflowError\<close> and \<open>TypeError\<close> are raised by the
  interpreter. Each carries its message, which is what \<open>str(e)\<close> returns.
\<close>

datatype py_exception =
  ValueError string | ZeroDivisionError string | OverflowError string | TypeError string

fun py_str :: "py_exception \<Rightarrow> string" where
  "py_str (ValueError m) = m"
| "py_str (ZeroDivisionError m) = m"
| "py_str (OverflowError m) = m"
| "py_str (TypeError m) = m"

text \<open>
  Evaluating an expression or calling a function either returns a value or raises.
  An integer raised to a negative integer power is computed in floating point and yields
  a float. Floats never occur as operands here, so they are not among the values; the
  outcome \<open>Returned_float x\<close> says that a float is returned, namely the platform's
  double-precision approximation of the real number \<open>x\<close> (the float \<open>0.5\<close> for
  \<open>x = 1 / 2\<close>). One evaluation is not modelled and has the outcome \<open>Unmodelled\<close>:
  the repetition of a string by an integer (bounded by the platform's index size and
  memory).
\<close>

datatype 'a outcome = Returned 'a | Returned_float real | Raised py_exception | Unmodelled

subsection \<open>The interpreter's operators\<close>

text \<open>
  The messages of the exceptions that the interpreter raises are CPython's. Their wording
  is not part of the module (that of the zero division has changed between releases);
  the results below use only that they differ from the module's own messages.
\<close>

fun type_name :: "py_value \<Rightarrow> string" where
  "type_name (PyInt _) = ''int''"
| "type_name (PyStr _) = ''str''"

definition quoted :: "string \<Rightarrow> string" where
  "quoted s = CHR 0x27 # s @ [CHR 0x27]"

definition unsupported_operand :: "string \<Rightarrow> py_value \<Rightarrow> py_value \<Rightarrow> py_exception" where
  "unsupported_operand opr l r =
     TypeError (''unsupported operand type(s) for '' @ opr @ '': '' @
                quoted (type_name l) @ '' and '' @ quoted (type_name r))"

definition concatenate_message :: string where
  "concatenate_message =
     ''can only concatenate str (not '' @ [CHR 0x22] @ ''int'' @ [CHR 0x22] @ '') to str''"

definition multiply_sequence_message :: string where
  "multiply_sequence_message =
     ''can'' @ [CHR 0x27] @ ''t multiply sequence by non-int of type '' @ quoted ''str''"

definition zero_division_message :: string where
  "zero_division_message = ''integer division or modulo by zero''"

definition not_an_exception_message :: string where
  "not_an_exception_message = ''exceptions must derive from BaseException''"

definition int_too_large_message :: string where
  "int_too_large_message = ''int too large to convert to float''"

definition zero_power_message :: string where
  "zero_power_message = ''0.0 cannot be raised to a negative power''"

text \<open>\<open>a + b\<close>: integer addition, string concatenation, otherwise a \<open>TypeError\<close>.\<close>

fun py_add :: "py_value \<Rightarrow> py_value \<Rightarrow> py_value outcome" where
  "py_add (PyInt a) (PyInt b) = Returned (PyInt (a + b))"
| "py_add (PyStr s) (PyStr t) = Returned (PyStr (s @ t))"
| "py_add (PyInt a) (PyStr t) = Raised (unsupported_operand ''+'' (PyInt a) (PyStr t))"
| "py_add (PyStr s) (PyInt b) = Raised (TypeError concatenate_message)"

text \<open>\<open>a - b\<close>: defined on integers only.\<close>

fun py_sub :: "py_value \<Rightarrow> py_value \<Rightarrow> py_value outcome" where
  "py_sub (PyInt a) (PyInt b) = Returned (PyInt (a - b))"
| "py_sub l r = Raised (unsupported_operand ''-'' l r)"

text \<open>\<open>a * b\<close>: integer product; a string times an integer is a repetition.\<close>

fun py_mul :: "py_value \<Rightarrow> py_value \<Rightarrow> py_value outcome" where
  "py_mul (PyInt a) (PyInt b) = Returned (PyInt (a * b))"
| "py_mul (PyStr s) (PyStr t) = Raised (TypeError multiply_sequence_message)"
| "py_mul (PyStr s) (PyInt b) = Unmodelled"
| "py_mul (PyInt a) (PyStr t) = Unmodelled"

text \<open>
  \<open>a // b\<close>: floor division of integers, which raises on a zero divisor. HOL's
  \<open>div\<close> on \<open>int\<close> rounds toward minus infinity as Python's \<open>//\<close> does, but returns
  \<open>0\<close> for a zero divisor, so the zero test is written out.
\<close>

fun py_floordiv :: "py_value \<Rightarrow> py_value \<Rightarrow> py_value outcome" where
  "py_floordiv (PyInt a) (PyInt b) =
     (if b = 0 then Raised (ZeroDivisionError zero_division_message)
      else Returned (PyInt (a div b)))"
| "py_floordiv l r = Raised (unsupported_operand ''//'' l r)"

text \<open>
  The conversion of an integer to a float raises \<open>OverflowError\<close> when the integer,
  rounded to 53 significant bits, does not fit the double-precision range: that is from
  \<open>2 ^ 1024 - 2 ^ 970\<close> on, half way between the largest double and \<open>2 ^ 1024\<close>.
\<close>

definition float_overflows :: "int \<Rightarrow> bool" where
  "float_overflows n = (2 ^ 1024 - 2 ^ 970 \<le> \<bar>n\<bar>)"

text \<open>
  \<open>a ** b\<close> on integers is exact for a non-negative exponent. For a negative exponent
  the interpreter converts both operands to floats and computes the power there: the
  conversion may overflow, a zero base raises \<open>ZeroDivisionError\<close>, and any other base
  gives the float for \<open>1 / a ^ (- b)\<close>.
\<close>

fun py_pow :: "py_value \<Rightarrow> py_value \<Rightarrow> py_value outcome" where
  "py_pow (PyInt a) (PyInt b) =
     (if 0 \<le> b then Returned (PyInt (a ^ nat b))
      else if float_overflows a \<or> float_overflows b
        then Raised (OverflowError int_too_large_message)
      else if a = 0 then Raised (ZeroDivisionError zero_power_message)
      else Returned_float (1 / real_of_int a ^ nat (- b)))"
| "py_pow l r = Raised (unsupported_operand ''** or pow()'' l r)"

text \<open>\<open>v > n\<close> for an integer \<open>n\<close>: a string and an integer are not ordered.\<close>

fun py_gt :: "py_value \<Rightarrow> int \<Rightarrow> bool outcome" where
  "py_gt (PyInt r) n = Returned (n < r)"
| "py_gt (PyStr s) n =
     Raised (TypeError (quoted ''>'' @ '' not supported between instances of '' @
                        quoted ''str'' @ '' and '' @ quoted ''int''))"

section \<open>The module\<close>

definition CHARACTER_LIMIT :: int where
  "CHARACTER_LIMIT = 1000"

record ErrorResponse =
  error :: string
  details :: "string option"

text \<open>\<open>_make_api_request\<close>: the evaluator of the four named operations.\<close>

definition make_api_request :: "string \<Rightarrow> py_value \<Rightarrow> py_value \<Rightarrow> py_value outcome" where
  "make_api_request opn a b =
     (if opn = ''add'' then py_add a b
      else if opn = ''subtract'' then py_sub a b
      else if opn = ''multiply'' then py_mul a b
      else if opn = ''divide'' then py_floordiv a b
      else Raised (ValueError ''Unknown operation''))"

text \<open>\<open>_handle_api_error\<close>: the payload built from a caught exception.\<close>

definition handle_api_error :: "py_exception \<Rightarrow> ErrorResponse" where
  "handle_api_error e =
     \<lparr>error = py_str e, details = Some ''An error occurred during computation''\<rparr>"

text \<open>
  Every tool ends in \<open>except Exception as e: raise _handle_api_error(e)\<close>. The operand of
  that \<open>raise\<close> is an \<open>ErrorResponse\<close>, a pydantic model and not an exception, and the
  \<open>raise\<close> statement of Python 3 raises \<open>TypeError\<close> for an object that does not derive
  from \<open>BaseException\<close>.
\<close>

definition raise_ErrorResponse :: "ErrorResponse \<Rightarrow> py_exception" where
  "raise_ErrorResponse r = TypeError not_an_exception_message"

definition except_Exception :: "py_value outcome \<Rightarrow> py_value outcome" where
  "except_Exception body =
     (case body of
        Raised e \<Rightarrow> Raised (raise_ErrorResponse (handle_api_error e))
      | Returned v \<Rightarrow> Returned v
      | Returned_float x \<Rightarrow> Returned_float x
      | Unmodelled \<Rightarrow> Unmodelled)"

definition maths_add_numbers :: "py_value \<Rightarrow> py_value \<Rightarrow> py_value outcome" where
  "maths_add_numbers a b = except_Exception (make_api_request ''add'' a b)"

definition maths_subtract_numbers :: "py_value \<Rightarrow> py_value \<Rightarrow> py_value outcome" where
  "maths_subtract_numbers a b = except_Exception (make_api_request ''subtract'' a b)"

definition maths_multiply_numbers :: "py_value \<Rightarrow> py_value \<Rightarrow> py_value outcome" where
  "maths_multiply_numbers a b = except_Exception (make_api_request ''multiply'' a b)"

definition maths_divide_numbers :: "py_value \<Rightarrow> py_value \<Rightarrow> py_value outcome" where
  "maths_divide_numbers a b = except_Exception (make_api_request ''divide'' a b)"

text \<open>
  The statements under \<open>try\<close> in \<open>maths_power_numbers\<close>, and the tool itself. A float
  result is compared with the limit as well; the comparison is that of the real number
  it approximates, which has the same answer, since that number is at most \<open>1\<close> in
  magnitude.
\<close>

definition power_try :: "py_value \<Rightarrow> py_value \<Rightarrow> py_value outcome" where
  "power_try a b =
     (case py_pow a b of
        Returned res \<Rightarrow>
          (case py_gt res CHARACTER_LIMIT of
             Returned too_large \<Rightarrow>
               (if too_large then Raised (ValueError ''Result exceeds character limit'')
                else Returned res)
           | Raised e \<Rightarrow> Raised e
           | _ \<Rightarrow> Unmodelled)
      | Returned_float x \<Rightarrow>
          (if real_of_int CHARACTER_LIMIT < x
           then Raised (ValueError ''Result exceeds character limit'')
           else Returned_float x)
      | Raised e \<Rightarrow> Raised e
      | Unmodelled \<Rightarrow> Unmodelled)"

definition maths_power_numbers :: "py_value \<Rightarrow> py_value \<Rightarrow> py_value outcome" where
  "maths_power_numbers a b = except_Exception (power_try a b)"

subsection \<open>The validators of the pydantic models\<close>


text \<open>\<open>MathsResult\<close> and its validator \<open>validate_result\<close>.\<close>

record MathsResult =
  result :: int
  operation :: string

definition validate_result :: "MathsResult \<Rightarrow> MathsResult outcome" where
  "validate_result self =
     (if result self > CHARACTER_LIMIT then Raised (ValueError ''Result exceeds character limit'')
      else Returned self)"

subsection \<open>A server process answering a sequence of calls\<close>

text \<open>
  The five functions registered with \<open>@mcp.tool()\<close>, by name.
\<close>

datatype tool = Add | Subtract | Multiply | Divide | Power


text \<open>
  What the calls of one process share is the module's namespace. Its only variable that
  holds data is \<open>CHARACTER_LIMIT\<close>. Python has no constants: a module variable can be
  rebound at any time, and a function body looks it up when it runs. So a call is
  executed against the current value of that variable and hands on the namespace it
  leaves behind.
\<close>

record module_globals =
  character_limit :: int

text \<open>The namespace after the module is loaded: \<open>CHARACTER_LIMIT = 1000\<close> has run.\<close>

definition loaded_module :: module_globals where
  "loaded_module = \<lparr>character_limit = CHARACTER_LIMIT\<rparr>"

text \<open>
  The statements under \<open>try\<close> in \<open>maths_power_numbers\<close> against a namespace: they look
  \<open>CHARACTER_LIMIT\<close> up for the comparison and assign no variable. (As in \<open>power_try\<close>, a
  float is compared through the real number it approximates, which has the same answer
  for a limit of at least \<open>1\<close>.)
\<close>

definition power_try_in :: "module_globals \<Rightarrow> py_value \<Rightarrow> py_value \<Rightarrow> py_value outcome" where
  "power_try_in g a b =
     (case py_pow a b of
        Returned res \<Rightarrow>
          (case py_gt res (character_limit g) of
             Returned too_large \<Rightarrow>
               (if too_large then Raised (ValueError ''Result exceeds character limit'')
                else Returned res)
           | Raised e \<Rightarrow> Raised e
           | _ \<Rightarrow> Unmodelled)
      | Returned_float x \<Rightarrow>
          (if real_of_int (character_limit g) < x
           then Raised (ValueError ''Result exceeds character limit'')
           else Returned_float x)
      | Raised e \<Rightarrow> Raised e
      | Unmodelled \<Rightarrow> Unmodelled)"

definition maths_power_numbers_in ::
  "module_globals \<Rightarrow> py_value \<Rightarrow> py_value \<Rightarrow> py_value outcome \<times> module_globals" where
  "maths_power_numbers_in g a b = (except_Exception (power_try_in g a b), g)"

text \<open>
  The bodies of the other four tools, \<open>_make_api_request\<close> and \<open>_handle_api_error\<close> look up
  no data variable of the module and assign none.
\<close>

fun call_tool_in ::
  "module_globals \<Rightarrow> tool \<Rightarrow> py_value \<Rightarrow> py_value \<Rightarrow> py_value outcome \<times> module_globals" where
  "call_tool_in g Add a b = (maths_add_numbers a b, g)"
| "call_tool_in g Subtract a b = (maths_subtract_numbers a b, g)"
| "call_tool_in g Multiply a b = (maths_multiply_numbers a b, g)"
| "call_tool_in g Divide a b = (maths_divide_numbers a b, g)"
| "call_tool_in g Power a b = maths_power_numbers_in g a b"

type_synonym request = "tool \<times> py_value \<times> py_value"

fun invoke :: "module_globals \<Rightarrow> request \<Rightarrow> py_value outcome \<times> module_globals" where
  "invoke g (t, a, b) = call_tool_in g t a b"


section \<open>The results of addition, subtraction and multiplication\<close>

lemma except_Exception_Returned: "except_Exception (Returned v) = Returned v"
  by (simp add: except_Exception_def)

lemma except_Exception_Raised:
  "except_Exception (Raised e) = Raised (TypeError not_an_exception_message)"
  by (simp add: except_Exception_def raise_ErrorResponse_def)

text \<open>
  C1 (as amended). For all integers \<open>a\<close> and \<open>b\<close> the tools \<open>maths_add_numbers\<close>,
  \<open>maths_subtract_numbers\<close> and \<open>maths_multiply_numbers\<close> return \<open>a + b\<close>, \<open>a - b\<close> and
  \<open>a * b\<close>, whatever the magnitude of the result: none of them compares its result
  with \<open>CHARACTER_LIMIT\<close>.
\<close>

theorem arithmetic_tools_uncapped:
  "maths_add_numbers (PyInt a) (PyInt b) = Returned (PyInt (a + b)) \<and>
   maths_subtract_numbers (PyInt a) (PyInt b) = Returned (PyInt (a - b)) \<and>
   maths_multiply_numbers (PyInt a) (PyInt b) = Returned (PyInt (a * b))"
  by (simp add: maths_add_numbers_def maths_subtract_numbers_def maths_multiply_numbers_def
      make_api_request_def except_Exception_Returned)

text \<open>
  C1 as written fails: \<open>500 + 501\<close> exceeds the limit of \<open>1000\<close> in magnitude, and
  \<open>maths_add_numbers\<close> returns it.
\<close>

theorem add_500_501_returns_1001:
  "maths_add_numbers (PyInt 500) (PyInt 501) = Returned (PyInt 1001) \<and>
   CHARACTER_LIMIT < \<bar>500 + 501\<bar>"
  by (simp add: maths_add_numbers_def make_api_request_def except_Exception_Returned
      CHARACTER_LIMIT_def)

section \<open>Failures at the tool boundary\<close>

text \<open>
  C2. A call that fails should hand the caller a structured payload holding the original
  message and the fixed detail string. \<open>handle_api_error\<close> builds exactly that payload,
  but the tool then uses it as the operand of \<open>raise\<close>: for \<open>maths_divide_numbers(1, 0)\<close>
  the caller receives a bare \<open>TypeError\<close> and the payload is lost.
\<close>

theorem divide_1_0_raises_TypeError:
  "make_api_request ''divide'' (PyInt 1) (PyInt 0) = Raised (ZeroDivisionError zero_division_message) \<and>
   handle_api_error (ZeroDivisionError zero_division_message) =
     \<lparr>error = zero_division_message, details = Some ''An error occurred during computation''\<rparr> \<and>
   maths_divide_numbers (PyInt 1) (PyInt 0) = Raised (TypeError not_an_exception_message)"
  by (simp add: maths_divide_numbers_def make_api_request_def handle_api_error_def
      except_Exception_Raised)

section \<open>Division\<close>



text \<open>
  C4. For every integer \<open>a\<close> and every nonzero integer \<open>b\<close>, \<open>maths_divide_numbers\<close>
  returns the floor of the exact quotient \<open>a / b\<close>, taken in the reals.
\<close>

theorem divide_is_floor_of_quotient:
  "b \<noteq> 0 \<Longrightarrow>
   maths_divide_numbers (PyInt a) (PyInt b) = Returned (PyInt \<lfloor>real_of_int a / real_of_int b\<rfloor>)"
  by (simp add: maths_divide_numbers_def make_api_request_def except_Exception_Returned
      floor_divide_of_int_eq)

theorem divide_is_floor_of_quotient_witness:
  "(2::int) \<noteq> 0 \<and>
   maths_divide_numbers (PyInt 7) (PyInt 2) = Returned (PyInt 3) \<and>
   maths_divide_numbers (PyInt (- 7)) (PyInt 2) = Returned (PyInt (- 4))"
  using divide_is_floor_of_quotient [of 2 7] divide_is_floor_of_quotient [of 2 "- 7"]
  by simp

section \<open>Power and the result limit\<close>

lemma power_try_int:
  "0 \<le> b \<Longrightarrow>
   power_try (PyInt a) (PyInt b) =
     (if 1000 < a ^ nat b then Raised (ValueError ''Result exceeds character limit'')
      else Returned (PyInt (a ^ nat b)))"
  by (simp add: power_try_def CHARACTER_LIMIT_def)




text \<open>
  C6. The limit is one-sided. For \<open>b \<ge> 0\<close> the check in \<open>maths_power_numbers\<close> raises
  "Result exceeds character limit" exactly when \<open>a ** b > 1000\<close>, and a result below
  \<open>-1000\<close> is returned as a value; \<open>MathsResult.validate_result\<close> likewise rejects a
  result exactly when it is greater than \<open>1000\<close>.
\<close>

theorem limit_is_one_sided:
  "0 \<le> b \<Longrightarrow>
   (power_try (PyInt a) (PyInt b) = Raised (ValueError ''Result exceeds character limit''))
     = (1000 < a ^ nat b) \<and>
   (a ^ nat b < - 1000 \<longrightarrow>
      maths_power_numbers (PyInt a) (PyInt b) = Returned (PyInt (a ^ nat b))) \<and>
   (validate_result r = Raised (ValueError ''Result exceeds character limit''))
     = (1000 < result r) \<and>
   (validate_result r = Returned r) = (result r \<le> 1000)"
  by (auto simp add: maths_power_numbers_def power_try_int except_Exception_Returned
      validate_result_def CHARACTER_LIMIT_def)

theorem limit_is_one_sided_witness:
  "(0::int) \<le> 11 \<and> (- 2 :: int) ^ nat 11 < - 1000 \<and>
   power_try (PyInt (- 2)) (PyInt 11) \<noteq> Raised (ValueError ''Result exceeds character limit'') \<and>
   maths_power_numbers (PyInt (- 2)) (PyInt 11) = Returned (PyInt (- 2048)) \<and>
   validate_result \<lparr>result = - 2048, operation = ''power''\<rparr> =
     Returned \<lparr>result = - 2048, operation = ''power''\<rparr>"
  using limit_is_one_sided [of 11 "- 2" "\<lparr>result = - 2048, operation = ''power''\<rparr>"]
  by simp

section \<open>Unknown operations\<close>

text \<open>
  C7. For every operation name other than "add", "subtract", "multiply" and "divide",
  and for all operands, the evaluator \<open>make_api_request\<close> raises \<open>ValueError\<close> with the
  message "Unknown operation" and computes no value.
\<close>

theorem unknown_operation_raises:
  "opn \<notin> {''add'', ''subtract'', ''multiply'', ''divide''} \<Longrightarrow>
   make_api_request opn a b = Raised (ValueError ''Unknown operation'')"
  by (simp add: make_api_request_def)

theorem unknown_operation_raises_witness:
  "''power'' \<notin> {''add'', ''subtract'', ''multiply'', ''divide''} \<and>
   make_api_request ''power'' (PyInt 2) (PyInt 5) = Raised (ValueError ''Unknown operation'')"
  using unknown_operation_raises [of "''power''" "PyInt 2" "PyInt 5"]
  by simp

section \<open>Negative exponents\<close>








section \<open>Determinism and statelessness\<close>







text \<open>
  The namespace is read: with another value of \<open>CHARACTER_LIMIT\<close> the same call of the
  power tool has another outcome.
\<close>

lemma power_looks_up_character_limit:
  "fst (invoke loaded_module (Power, PyInt 2, PyInt 10)) =
     Raised (TypeError not_an_exception_message) \<and>
   fst (invoke \<lparr>character_limit = 2000\<rparr> (Power, PyInt 2, PyInt 10)) = Returned (PyInt 1024)"
  by (simp add: maths_power_numbers_in_def power_try_in_def loaded_module_def
      CHARACTER_LIMIT_def except_Exception_Returned except_Exception_Raised)


end
